theory Spec2Isabelle
  imports Main "HOL-Library.Word"
begin

section \<open>JavaScript strings\<close>

text \<open>
  A JavaScript string is a sequence of UTF-16 code units. Literals of the source are
  written \<open>str ''...''\<close>. A string is truthy exactly when it is not empty; null and
  undefined (\<open>None\<close>) are falsy.
\<close>

type_synonym jsstring = "16 word list"

definition str :: "string \<Rightarrow> jsstring" where
  "str s = map of_char s"

datatype exn = URIError | StorageFailure

section \<open>decodeURIComponent\<close>

text \<open>
  The built-in called on line 69 of Login.tsx, after ECMA-262 (abstract operation Decode
  with an empty set of preserved escapes). \<open>None\<close> stands for the URIError it throws.
  A \<open>%\<close> must be followed by two hexadecimal digits. An octet below 0x80 is the code
  unit itself; an octet with two, three or four leading one bits opens a UTF-8 sequence
  whose remaining octets must be escaped as well and which must be well formed (no
  overlong form, no surrogate, nothing above U+10FFFF). Every other code unit is copied.
\<close>

definition hexValue :: "16 word \<Rightarrow> nat option" where
  "hexValue c =
     (let n = unat c in
      if 48 \<le> n \<and> n \<le> 57 then Some (n - 48)
      else if 65 \<le> n \<and> n \<le> 70 then Some (n - 55)
      else if 97 \<le> n \<and> n \<le> 102 then Some (n - 87)
      else None)"

fun ParseHexOctet :: "jsstring \<Rightarrow> nat option" where
  "ParseHexOctet (h # l # rest) =
     (case hexValue h of
        None \<Rightarrow> None
      | Some a \<Rightarrow> (case hexValue l of None \<Rightarrow> None | Some b \<Rightarrow> Some (16 * a + b)))"
| "ParseHexOctet [h] = None"
| "ParseHexOctet [] = None"

definition leadingOnes :: "nat \<Rightarrow> nat" where
  "leadingOnes b =
     (if b < 0x80 then 0 else if b < 0xC0 then 1 else if b < 0xE0 then 2
      else if b < 0xF0 then 3 else if b < 0xF8 then 4 else 5)"

fun escapedOctets :: "nat \<Rightarrow> jsstring \<Rightarrow> (nat list \<times> jsstring) option" where
  "escapedOctets 0 s = Some ([], s)"
| "escapedOctets (Suc j) [] = None"
| "escapedOctets (Suc j) (c # cs) =
     (if c \<noteq> 0x25 then None
      else case ParseHexOctet cs of
        None \<Rightarrow> None
      | Some b \<Rightarrow>
          (case escapedOctets j (drop 2 cs) of
             None \<Rightarrow> None
           | Some (bs, rest) \<Rightarrow> Some (b # bs, rest)))"

definition continuationOctet :: "nat \<Rightarrow> bool" where
  "continuationOctet b \<longleftrightarrow> 0x80 \<le> b \<and> b < 0xC0"

fun utf8CodePoint :: "nat list \<Rightarrow> nat option" where
  "utf8CodePoint [b0, b1] =
     (let v = (b0 - 0xC0) * 64 + (b1 - 0x80)
      in if continuationOctet b1 \<and> 0x80 \<le> v then Some v else None)"
| "utf8CodePoint [b0, b1, b2] =
     (let v = (b0 - 0xE0) * 4096 + (b1 - 0x80) * 64 + (b2 - 0x80)
      in if continuationOctet b1 \<and> continuationOctet b2 \<and> 0x800 \<le> v
            \<and> \<not> (0xD800 \<le> v \<and> v \<le> 0xDFFF)
         then Some v else None)"
| "utf8CodePoint [b0, b1, b2, b3] =
     (let v = (b0 - 0xF0) * 262144 + (b1 - 0x80) * 4096 + (b2 - 0x80) * 64 + (b3 - 0x80)
      in if continuationOctet b1 \<and> continuationOctet b2 \<and> continuationOctet b3
            \<and> 0x10000 \<le> v \<and> v \<le> 0x10FFFF
         then Some v else None)"
| "utf8CodePoint bs = None"

definition UTF16EncodeCodePoint :: "nat \<Rightarrow> jsstring" where
  "UTF16EncodeCodePoint cp =
     (if cp \<le> 0xFFFF then [of_nat cp]
      else [of_nat ((cp - 0x10000) div 0x400 + 0xD800),
            of_nat ((cp - 0x10000) mod 0x400 + 0xDC00)])"

lemma escapedOctets_length:
  "escapedOctets j s = Some (bs, rest) \<Longrightarrow> length rest \<le> length s"
proof (induction j s arbitrary: bs rest rule: escapedOctets.induct)
  case (3 j c cs)
  from "3.prems" obtain b bs' where
    b: "ParseHexOctet cs = Some b" and r: "escapedOctets j (drop 2 cs) = Some (bs', rest)"
    by (auto split: if_splits option.splits)
  from "3.IH" [OF _ b r] "3.prems" have "length rest \<le> length (drop 2 cs)"
    by (auto split: if_splits)
  then show ?case by simp
qed simp_all

function Decode :: "jsstring \<Rightarrow> jsstring option" where
  "Decode [] = Some []"
| "Decode (c # cs) =
     (if c \<noteq> 0x25 then map_option ((#) c) (Decode cs)
      else case ParseHexOctet cs of
        None \<Rightarrow> None
      | Some b \<Rightarrow>
          if leadingOnes b = 0 then map_option ((#) (of_nat b)) (Decode (drop 2 cs))
          else if leadingOnes b = 1 \<or> 4 < leadingOnes b then None
          else (case escapedOctets (leadingOnes b - 1) (drop 2 cs) of
                  None \<Rightarrow> None
                | Some (bs, rest) \<Rightarrow>
                    (case utf8CodePoint (b # bs) of
                       None \<Rightarrow> None
                     | Some v \<Rightarrow> map_option ((@) (UTF16EncodeCodePoint v)) (Decode rest))))"
  by pat_completeness auto
termination
proof (relation "measure length", goal_cases)
  case (4 c cs b x bs rest v)
  then have "length rest \<le> length (drop 2 cs)"
    using escapedOctets_length by metis
  then show ?case by simp
qed simp_all

definition decodeURIComponent :: "jsstring \<Rightarrow> exn + jsstring" where
  "decodeURIComponent s = (case Decode s of None \<Rightarrow> Inl URIError | Some r \<Rightarrow> Inr r)"

section \<open>Data of the login screen\<close>

text \<open>
  The form values (\<open>initialValues\<close> of the Formik form, lines 117 to 121), the payload of
  a successful response, and the value the mutation function returns (line 54): the
  response data with the submitted \<open>rememberMe\<close> spread over it.
\<close>

record credentials =
  email :: jsstring
  password :: jsstring
  rememberMe :: bool

record userRecord =
  userId :: nat
  preferedLanguage :: "jsstring option"

record loginResponse =
  token :: jsstring
  user :: userRecord

text \<open>
  \<open>dataRememberMe\<close> is the \<open>rememberMe\<close> property of the value the mutation returns.
\<close>

record loginData = loginResponse +
  dataRememberMe :: bool

text \<open>
  The error handed to \<open>onError\<close>: every link of \<open>err.response?.data?.error?.message\<close>
  may be missing.
\<close>

record apiErrorPayload =
  message :: "jsstring option"

record responseBody =
  error :: "apiErrorPayload option"

record axiosResponse =
  responseData :: "responseBody option"

record axiosError =
  response :: "axiosResponse option"

datatype jsvalue = JString jsstring | JBool bool

record request =
  url :: jsstring
  body :: "(string \<times> jsvalue) list"

datatype action = SetLocale jsstring

datatype field = Email | Password | RememberMe

text \<open>
  The two message keys of \<open>translatedErrors\<close> that the schema uses:
  \<open>translatedErrors.email\<close> and \<open>translatedErrors.required\<close>.
\<close>

datatype errorKey = TranslatedEmail | TranslatedRequired

datatype durability = LongLived | SessionScoped

datatype storageKey = TokenKey | UserInfoKey

datatype stored = StoredToken jsstring | StoredUser userRecord

text \<open>
  Everything the handlers of the component read or change: the React state \<open>apiError\<close>,
  the paths handed to \<open>push\<close>, the actions handed to \<open>dispatch\<close>, the requests handed
  to \<open>post\<close> and not answered yet, the error map Formik keeps, and the two browser
  storage areas. \<open>refuses\<close> says which writes a storage area rejects (a full or disabled
  storage); it is never changed by the component.
\<close>

record world =
  apiError :: "jsstring option"
  history :: "jsstring list"
  dispatched :: "action list"
  inflight :: "request list"
  formErrors :: "(field \<times> errorKey) list"
  storage :: "durability \<Rightarrow> storageKey \<Rightarrow> stored option"
  refuses :: "durability \<Rightarrow> storageKey \<Rightarrow> bool"

datatype completion = Returned | Threw exn

definition push :: "jsstring \<Rightarrow> world \<Rightarrow> world" where
  "push path w = w\<lparr>history := history w @ [path]\<rparr>"

definition dispatch :: "action \<Rightarrow> world \<Rightarrow> world" where
  "dispatch a w = w\<lparr>dispatched := dispatched w @ [a]\<rparr>"

definition setApiError :: "jsstring \<Rightarrow> world \<Rightarrow> world" where
  "setApiError m w = w\<lparr>apiError := Some m\<rparr>"

definition post :: "jsstring \<Rightarrow> (string \<times> jsvalue) list \<Rightarrow> world \<Rightarrow> world" where
  "post u b w = w\<lparr>inflight := inflight w @ [\<lparr>url = u, body = b\<rparr>]\<rparr>"

section \<open>Session storage helper\<close>

text \<open>
  Modelled from the spec: \<open>auth.setToken\<close> and \<open>auth.setUserInfo\<close> of
  \<open>@strapi/helper-plugin\<close>, which are not part of the source file. The spec (section 4.3)
  says that the token is persisted "tagged with the durability implied by rememberMe
  (true => long-lived/persistent storage; false => session-scoped storage)", that the
  user is persisted "alongside the token under the same durability tag", and that a write
  can fail "mid-persist". A write the storage area refuses throws and changes nothing.
\<close>

definition tierOf :: "bool \<Rightarrow> durability" where
  "tierOf isLocalStorage = (if isLocalStorage then LongLived else SessionScoped)"

definition auth_set :: "stored \<Rightarrow> storageKey \<Rightarrow> bool \<Rightarrow> world \<Rightarrow> exn + world" where
  "auth_set v k isLocalStorage w =
     (let tier = tierOf isLocalStorage
      in if refuses w tier k then Inl StorageFailure
         else Inr (w\<lparr>storage := (storage w)(tier := (storage w tier)(k \<mapsto> v))\<rparr>))"

definition setToken :: "jsstring \<Rightarrow> bool \<Rightarrow> world \<Rightarrow> exn + world" where
  "setToken t isLocalStorage w = auth_set (StoredToken t) TokenKey isLocalStorage w"

definition setUserInfo :: "userRecord \<Rightarrow> bool \<Rightarrow> world \<Rightarrow> exn + world" where
  "setUserInfo u isLocalStorage w = auth_set (StoredUser u) UserInfoKey isLocalStorage w"

section \<open>The mutation and its handlers\<close>

text \<open>
  Lines 49 to 55. The mutation function posts its argument, the whole values object, to
  \<open>/admin/login\<close>, and returns the response data with \<open>rememberMe\<close> of its argument.
\<close>

definition bodyOf :: "credentials \<Rightarrow> (string \<times> jsvalue) list" where
  "bodyOf v =
     [(''email'', JString (email v)),
      (''password'', JString (password v)),
      (''rememberMe'', JBool (rememberMe v))]"

definition mutate :: "credentials \<Rightarrow> world \<Rightarrow> world" where
  "mutate v w = post (str ''/admin/login'') (bodyOf v) w"

definition mutationResult :: "credentials \<Rightarrow> loginResponse \<Rightarrow> loginData" where
  "mutationResult v d = \<lparr>token = token d, user = user d, dataRememberMe = rememberMe v\<rparr>"

text \<open>
  Lines 68 and 69: \<open>redirectTo ? decodeURIComponent(redirectTo) : '/'\<close>, on the value
  \<open>query.get('redirectTo')\<close> returns (\<open>None\<close> for null).
\<close>

definition redirectUrl :: "jsstring option \<Rightarrow> exn + jsstring" where
  "redirectUrl redirectTo =
     (case redirectTo of
        None \<Rightarrow> Inr (str ''/'')
      | Some r \<Rightarrow> if r \<noteq> [] then decodeURIComponent r else Inr (str ''/''))"

text \<open>
  Lines 57 to 73. \<open>applyPreferedLanguage\<close> is the conditional of lines 61 to 63, which
  dispatches \<open>setLocale\<close> when \<open>user.preferedLanguage\<close> is truthy. \<open>query\<close> is the
  search-parameter object of \<open>useQuery\<close>, as its \<open>get\<close>. An exception ends the handler
  where it is thrown, keeping what was done before.
\<close>

definition applyPreferedLanguage :: "userRecord \<Rightarrow> world \<Rightarrow> world" where
  "applyPreferedLanguage u w =
     (case preferedLanguage u of
        None \<Rightarrow> w
      | Some l \<Rightarrow> if l \<noteq> [] then dispatch (SetLocale l) w else w)"

definition onSuccess ::
  "(jsstring \<Rightarrow> jsstring option) \<Rightarrow> loginData option \<Rightarrow> world \<Rightarrow> completion \<times> world" where
  "onSuccess query data w =
     (case data of
        None \<Rightarrow> (Returned, w)
      | Some d \<Rightarrow>
          let w1 = applyPreferedLanguage (user d) w
          in case setToken (token d) (dataRememberMe d) w1 of
               Inl e \<Rightarrow> (Threw e, w1)
             | Inr w2 \<Rightarrow>
                 (case setUserInfo (user d) (dataRememberMe d) w2 of
                    Inl e \<Rightarrow> (Threw e, w2)
                  | Inr w3 \<Rightarrow>
                      (case redirectUrl (query (str ''redirectTo'')) of
                         Inl e \<Rightarrow> (Threw e, w3)
                       | Inr target \<Rightarrow> (Returned, push target w3))))"

text \<open>
  Lines 74 to 83. \<open>applicationMessage\<close> is the optional chain
  \<open>err.response?.data?.error?.message\<close> and \<open>errorMessage\<close> its value or the fallback
  (\<open>??\<close>). \<open>camelCase\<close> is the function of lodash and \<open>toLowerCase\<close> the string
  method; both are arguments of the model.
\<close>

definition applicationMessage :: "axiosError \<Rightarrow> jsstring option" where
  "applicationMessage err =
     (case response err of
        None \<Rightarrow> None
      | Some r \<Rightarrow>
          (case responseData r of
             None \<Rightarrow> None
           | Some d \<Rightarrow> (case error d of None \<Rightarrow> None | Some e \<Rightarrow> message e)))"

definition errorMessage :: "axiosError \<Rightarrow> jsstring" where
  "errorMessage err =
     (case applicationMessage err of
        None \<Rightarrow> str ''Something went wrong''
      | Some m \<Rightarrow> m)"

definition onError ::
  "(jsstring \<Rightarrow> jsstring) \<Rightarrow> (jsstring \<Rightarrow> jsstring) \<Rightarrow> axiosError \<Rightarrow> world \<Rightarrow> world" where
  "onError camelCase toLowerCase err w =
     (let m = errorMessage err
      in if toLowerCase (camelCase m) = str ''usernotactive''
         then push (str ''/auth/oops'') w
         else setApiError m w)"

section \<open>Validation and submission\<close>

text \<open>
  \<open>LOGIN_SCHEMA\<close> (lines 33 to 37) as Formik runs it on submit: every rule is checked
  and the first message of each field is kept. \<open>string().required\<close> fails on the empty
  string; \<open>string().email\<close> tests a non-empty string against the email pattern of yup,
  an argument of the model; \<open>bool().nullable()\<close> accepts every value of the checkbox.
\<close>

definition LOGIN_SCHEMA :: "(jsstring \<Rightarrow> bool) \<Rightarrow> credentials \<Rightarrow> (field \<times> errorKey) list" where
  "LOGIN_SCHEMA isEmail v =
     (if email v = [] then [(Email, TranslatedRequired)]
      else if \<not> isEmail (email v) then [(Email, TranslatedEmail)]
      else [])
     @ (if password v = [] then [(Password, TranslatedRequired)] else [])"

definition initialValues :: credentials where
  "initialValues = \<lparr>email = [], password = [], rememberMe = False\<rparr>"

text \<open>
  Lines 115 to 126: a submit event validates the values; \<open>onSubmit\<close>, which calls
  \<open>mutation.mutate(values)\<close> and nothing else, runs only when no field has an error.
\<close>

definition onSubmit :: "credentials \<Rightarrow> world \<Rightarrow> world" where
  "onSubmit v w = mutate v w"

definition handleSubmit :: "(jsstring \<Rightarrow> bool) \<Rightarrow> credentials \<Rightarrow> world \<Rightarrow> world" where
  "handleSubmit isEmail v w =
     (let errors = LOGIN_SCHEMA isEmail v; w' = w\<lparr>formErrors := errors\<rparr>
      in if errors = [] then onSubmit v w' else w')"

fun submits :: "(jsstring \<Rightarrow> bool) \<Rightarrow> credentials list \<Rightarrow> world \<Rightarrow> world" where
  "submits isEmail [] w = w"
| "submits isEmail (v # vs) w = submits isEmail vs (handleSubmit isEmail v w)"

section \<open>The library functions on ASCII strings\<close>

text \<open>
  The handlers take \<open>camelCase\<close>, \<open>toLowerCase\<close> and the email pattern as arguments.
  To run them on examples, here are the two string functions on strings of ASCII code
  units. \<open>camelCase\<close> of lodash removes apostrophes, splits the string into words,
  lowers the first word and capitalises the others. On ASCII its word pattern finds, from
  left to right: an optional capital followed by small letters; a run of capitals, without
  its last one when a small letter follows; a run of digits, with an ordinal suffix
  (\<open>1st\<close>, \<open>2ND\<close>, \<open>4th\<close>) that is not followed by a letter of the same case or a
  digit; every other character separates words.
\<close>

definition isUpperA :: "16 word \<Rightarrow> bool" where
  "isUpperA c \<longleftrightarrow> 0x41 \<le> c \<and> c \<le> 0x5A"

definition isLowerA :: "16 word \<Rightarrow> bool" where
  "isLowerA c \<longleftrightarrow> 0x61 \<le> c \<and> c \<le> 0x7A"

definition isDigitA :: "16 word \<Rightarrow> bool" where
  "isDigitA c \<longleftrightarrow> 0x30 \<le> c \<and> c \<le> 0x39"

definition toLowerCaseA :: "jsstring \<Rightarrow> jsstring" where
  "toLowerCaseA s = map (\<lambda>c. if isUpperA c then c + 0x20 else c) s"

definition upperFirstA :: "jsstring \<Rightarrow> jsstring" where
  "upperFirstA s = (case s of [] \<Rightarrow> [] | c # cs \<Rightarrow> (if isLowerA c then c - 0x20 else c) # cs)"

definition ordinalSuffix :: "16 word \<Rightarrow> jsstring" where
  "ordinalSuffix d =
     (if d = 0x31 then str ''ST'' else if d = 0x32 then str ''ND''
      else if d = 0x33 then str ''RD'' else str ''TH'')"

function wordsA :: "jsstring \<Rightarrow> jsstring list" where
  "wordsA [] = []"
| "wordsA (c # cs) =
     (if isLowerA c \<or> (isUpperA c \<and> cs \<noteq> [] \<and> isLowerA (hd cs))
      then (c # takeWhile isLowerA cs) # wordsA (dropWhile isLowerA cs)
      else if isUpperA c then
        (let run = c # takeWhile isUpperA cs; rest = dropWhile isUpperA cs
         in if rest \<noteq> [] \<and> isLowerA (hd rest)
            then butlast run # (last run # takeWhile isLowerA rest)
                   # wordsA (dropWhile isLowerA rest)
            else run # wordsA rest)
      else if isDigitA c then
        (let run = c # takeWhile isDigitA cs; rest = dropWhile isDigitA cs;
             suffix = take 2 rest; after = drop 2 rest
         in if suffix = ordinalSuffix (last run)
               \<and> (case after of [] \<Rightarrow> True | a # _ \<Rightarrow> \<not> isUpperA a \<and> \<not> isDigitA a)
            then (run @ suffix) # wordsA after
            else if suffix = toLowerCaseA (ordinalSuffix (last run))
               \<and> (case after of [] \<Rightarrow> True | a # _ \<Rightarrow> \<not> isLowerA a \<and> \<not> isDigitA a)
            then (run @ suffix) # wordsA after
            else run # wordsA rest)
      else wordsA cs)"
  by pat_completeness auto
termination
proof (relation "measure length", goal_cases)
  case (3 c cs run rest)
  have "length (dropWhile isLowerA (dropWhile isUpperA cs)) \<le> length cs"
    by (meson length_dropWhile_le le_trans)
  with 3 show ?case by simp
next
  case (5 c cs run rest suffix after)
  have "length (drop 2 (dropWhile isDigitA cs)) \<le> length cs"
    using length_dropWhile_le [of isDigitA cs] by simp
  with 5 show ?case by simp
next
  case (6 c cs run rest suffix after)
  have "length (drop 2 (dropWhile isDigitA cs)) \<le> length cs"
    using length_dropWhile_le [of isDigitA cs] by simp
  with 6 show ?case by simp
qed (simp_all add: length_dropWhile_le less_Suc_eq_le)

definition camelCaseA :: "jsstring \<Rightarrow> jsstring" where
  "camelCaseA s =
     (case wordsA (filter (\<lambda>c. c \<noteq> 0x27) s) of
        [] \<Rightarrow> []
      | w # ws \<Rightarrow> toLowerCaseA w @ concat (map (\<lambda>x. upperFirstA (toLowerCaseA x)) ws))"

text \<open>
  A necessary condition of the email pattern of yup: the address has an at sign.
\<close>

definition hasAtSign :: "jsstring \<Rightarrow> bool" where
  "hasAtSign s \<longleftrightarrow> 0x40 \<in> set s"

section \<open>Example values\<close>

definition idleWorld :: world where
  "idleWorld =
     \<lparr>apiError = None, history = [], dispatched = [], inflight = [], formErrors = [],
      storage = (\<lambda>tier key. None), refuses = (\<lambda>tier key. False)\<rparr>"

definition failureWith :: "string \<Rightarrow> axiosError" where
  "failureWith m =
     \<lparr>response = Some \<lparr>responseData = Some \<lparr>error = Some \<lparr>message = Some (str m)\<rparr>\<rparr>\<rparr>\<rparr>"

definition transportFailure :: axiosError where
  "transportFailure = \<lparr>response = None\<rparr>"

definition kai :: credentials where
  "kai = \<lparr>email = str ''kai@doe.com'', password = str ''secret'', rememberMe = True\<rparr>"

definition kaiResponse :: "jsstring option \<Rightarrow> loginResponse" where
  "kaiResponse lang =
     \<lparr>token = str ''jwt'', user = \<lparr>userId = 1, preferedLanguage = lang\<rparr>\<rparr>"

definition userRefusingWorld :: world where
  "userRefusingWorld = idleWorld\<lparr>refuses := (\<lambda>tier key. key = UserInfoKey)\<rparr>"

definition refusingWorld :: world where
  "refusingWorld = idleWorld\<lparr>refuses := (\<lambda>tier key. True)\<rparr>"

definition queryWith :: "string \<Rightarrow> jsstring \<Rightarrow> jsstring option" where
  "queryWith v = (\<lambda>k. if k = str ''redirectTo'' then Some (str v) else None)"

definition emptyQuery :: "jsstring \<Rightarrow> jsstring option" where
  "emptyQuery = (\<lambda>k. None)"

section \<open>Classification of failures\<close>

lemma normalised_inactive:
  "toLowerCaseA (camelCaseA (str ''UserNotActive'')) = str ''usernotactive''"
  by code_simp

lemma normalised_invalid:
  "toLowerCaseA (camelCaseA (str ''Invalid credentials'')) \<noteq> str ''usernotactive''"
  by code_simp

lemma normalised_fallback:
  "toLowerCaseA (camelCaseA (str ''Something went wrong'')) \<noteq> str ''usernotactive''"
  by code_simp

lemma errorMessage_failureWith: "errorMessage (failureWith m) = str m"
  by (simp add: errorMessage_def applicationMessage_def failureWith_def)

text \<open>
  C1. When the message of a failed submission, camel-cased and lowered, is the sentinel
  \<open>usernotactive\<close>, \<open>onError\<close> pushes the account-inactive path \<open>/auth/oops\<close> and
  leaves \<open>apiError\<close> as it was; for every other message it sets \<open>apiError\<close> to the
  message itself and pushes nothing.
\<close>

theorem onError_classification:
  "(toLowerCase (camelCase (errorMessage err)) = str ''usernotactive'' \<longrightarrow>
      history (onError camelCase toLowerCase err w) = history w @ [str ''/auth/oops'']
      \<and> apiError (onError camelCase toLowerCase err w) = apiError w)
   \<and> (toLowerCase (camelCase (errorMessage err)) \<noteq> str ''usernotactive'' \<longrightarrow>
      apiError (onError camelCase toLowerCase err w) = Some (errorMessage err)
      \<and> history (onError camelCase toLowerCase err w) = history w)"
  by (simp add: onError_def push_def setApiError_def Let_def)

theorem onError_classification_witness:
  "history (onError camelCaseA toLowerCaseA (failureWith ''UserNotActive'') idleWorld)
     = [str ''/auth/oops'']
   \<and> apiError (onError camelCaseA toLowerCaseA (failureWith ''UserNotActive'') idleWorld)
     = None
   \<and> apiError (onError camelCaseA toLowerCaseA (failureWith ''Invalid credentials'') idleWorld)
     = Some (str ''Invalid credentials'')
   \<and> history (onError camelCaseA toLowerCaseA (failureWith ''Invalid credentials'') idleWorld)
     = []"
proof -
  have idle: "history idleWorld = []" "apiError idleWorld = None"
    by (simp_all add: idleWorld_def)
  from onError_classification
         [of toLowerCaseA camelCaseA "failureWith ''UserNotActive''" idleWorld]
       onError_classification
         [of toLowerCaseA camelCaseA "failureWith ''Invalid credentials''" idleWorld]
  show ?thesis
    by (simp add: errorMessage_failureWith normalised_inactive normalised_invalid idle)
qed

text \<open>
  C8. When the failure carries no application-level message (no response, no data, no
  error object or no message in it), the message \<open>onError\<close> works on is the fallback
  \<open>Something went wrong\<close>; the library functions do not normalise the fallback to the
  sentinel, so it becomes \<open>apiError\<close> and nothing is pushed.
\<close>

theorem onError_fallback:
  assumes "applicationMessage err = None"
    and "toLowerCase (camelCase (str ''Something went wrong'')) \<noteq> str ''usernotactive''"
  shows "errorMessage err = str ''Something went wrong''
     \<and> apiError (onError camelCase toLowerCase err w) = Some (str ''Something went wrong'')
     \<and> history (onError camelCase toLowerCase err w) = history w"
proof -
  from assms(1) have m: "errorMessage err = str ''Something went wrong''"
    by (simp add: errorMessage_def)
  with assms(2) show ?thesis
    by (simp add: onError_def setApiError_def Let_def)
qed

theorem onError_fallback_witness:
  "applicationMessage transportFailure = None
   \<and> toLowerCaseA (camelCaseA (str ''Something went wrong'')) \<noteq> str ''usernotactive''
   \<and> errorMessage transportFailure = str ''Something went wrong''
   \<and> apiError (onError camelCaseA toLowerCaseA transportFailure idleWorld)
       = Some (str ''Something went wrong'')
   \<and> history (onError camelCaseA toLowerCaseA transportFailure idleWorld) = []"
proof -
  have a: "applicationMessage transportFailure = None"
    by (simp add: applicationMessage_def transportFailure_def)
  have idle: "history idleWorld = []"
    by (simp add: idleWorld_def)
  from onError_fallback
         [where err = transportFailure and camelCase = camelCaseA
            and toLowerCase = toLowerCaseA and w = idleWorld, OF a normalised_fallback]
       a normalised_fallback idle
  show ?thesis by simp
qed

section \<open>Submission\<close>

lemma handleSubmit_inflight:
  "inflight (handleSubmit isEmail v w) =
     (if LOGIN_SCHEMA isEmail v = [] then inflight w @ [\<lparr>url = str ''/admin/login'', body = bodyOf v\<rparr>]
      else inflight w)"
  by (simp add: handleSubmit_def onSubmit_def mutate_def post_def Let_def)

lemma handleSubmit_formErrors:
  "formErrors (handleSubmit isEmail v w) = LOGIN_SCHEMA isEmail v"
  by (simp add: handleSubmit_def onSubmit_def mutate_def post_def Let_def)

lemma LOGIN_SCHEMA_kai: "LOGIN_SCHEMA hasAtSign kai = []"
  by (simp add: LOGIN_SCHEMA_def kai_def hasAtSign_def str_def)

text \<open>
  C6. The schema accepts a draft exactly when the email is not empty and matches the email
  pattern and the password is not empty; \<open>rememberMe\<close> plays no part in validation and
  starts as false. A draft whose email does not match the pattern gets an error keyed on
  the email field, and submitting it issues no request.
\<close>

theorem LOGIN_SCHEMA_gate:
  "(LOGIN_SCHEMA isEmail v = [] \<longleftrightarrow> email v \<noteq> [] \<and> isEmail (email v) \<and> password v \<noteq> [])
   \<and> LOGIN_SCHEMA isEmail (v\<lparr>rememberMe := b\<rparr>) = LOGIN_SCHEMA isEmail v
   \<and> rememberMe initialValues = False
   \<and> (\<not> isEmail (email v) \<longrightarrow>
        Email \<in> fst ` set (LOGIN_SCHEMA isEmail v)
        \<and> Email \<in> fst ` set (formErrors (handleSubmit isEmail v w))
        \<and> inflight (handleSubmit isEmail v w) = inflight w)"
  by (simp add: handleSubmit_inflight handleSubmit_formErrors)
     (simp add: LOGIN_SCHEMA_def initialValues_def)

theorem LOGIN_SCHEMA_gate_witness:
  "\<not> hasAtSign (email (kai\<lparr>email := str ''kai.doe.com''\<rparr>))
   \<and> Email \<in> fst ` set (LOGIN_SCHEMA hasAtSign (kai\<lparr>email := str ''kai.doe.com''\<rparr>))
   \<and> inflight (handleSubmit hasAtSign (kai\<lparr>email := str ''kai.doe.com''\<rparr>) idleWorld) = []
   \<and> LOGIN_SCHEMA hasAtSign kai = []"
proof -
  have bad: "\<not> hasAtSign (email (kai\<lparr>email := str ''kai.doe.com''\<rparr>))"
    by (simp add: hasAtSign_def str_def)
  have idle: "inflight idleWorld = []"
    by (simp add: idleWorld_def)
  from LOGIN_SCHEMA_gate [of hasAtSign "kai\<lparr>email := str ''kai.doe.com''\<rparr>" True idleWorld]
       bad idle LOGIN_SCHEMA_kai
  show ?thesis by simp
qed

text \<open>
  C2, as stated, fails: two submit events with valid values and no response in between
  leave two requests in flight.
\<close>

theorem concurrent_submits_counterexample:
  "length (inflight (submits hasAtSign [kai, kai] idleWorld)) = 2"
  by (simp add: handleSubmit_inflight LOGIN_SCHEMA_kai idleWorld_def)

text \<open>
  C2, amended. \<open>onSubmit\<close> calls \<open>mutation.mutate\<close> unconditionally: every submit event
  whose values pass validation issues one more request, whether or not earlier requests
  are still in flight; submit events that fail validation issue none.
\<close>

theorem submits_requests:
  "inflight (submits isEmail vs w) =
     inflight w @ map (\<lambda>v. \<lparr>url = str ''/admin/login'', body = bodyOf v\<rparr>)
                      (filter (\<lambda>v. LOGIN_SCHEMA isEmail v = []) vs)"
  by (induction vs arbitrary: w) (simp_all add: handleSubmit_inflight)

text \<open>
  C3, as stated, fails: the body of the request has a \<open>rememberMe\<close> field next to
  \<open>email\<close> and \<open>password\<close>.
\<close>

theorem request_body_counterexample:
  "map (\<lambda>r. map fst (body r)) (inflight (handleSubmit hasAtSign kai idleWorld))
     = [[''email'', ''password'', ''rememberMe'']]"
proof -
  have "inflight (handleSubmit hasAtSign kai idleWorld)
          = [\<lparr>url = str ''/admin/login'', body = bodyOf kai\<rparr>]"
    by (simp add: handleSubmit_inflight LOGIN_SCHEMA_kai idleWorld_def)
  then show ?thesis by (simp add: bodyOf_def)
qed

text \<open>
  C3, amended. For values that pass validation, the one request issued on submission has
  the whole values object as its body: \<open>email\<close>, \<open>password\<close> and \<open>rememberMe\<close>. The
  same flag is copied into the value handed to \<open>onSuccess\<close>.
\<close>

theorem request_body_is_values:
  assumes "LOGIN_SCHEMA isEmail v = []"
  shows "inflight (handleSubmit isEmail v w) =
           inflight w @ [\<lparr>url = str ''/admin/login'',
                          body = [(''email'', JString (email v)),
                                  (''password'', JString (password v)),
                                  (''rememberMe'', JBool (rememberMe v))]\<rparr>]
         \<and> dataRememberMe (mutationResult v d) = rememberMe v"
  using assms by (simp add: handleSubmit_inflight bodyOf_def mutationResult_def)

theorem request_body_is_values_witness:
  "LOGIN_SCHEMA hasAtSign kai = []
   \<and> inflight (handleSubmit hasAtSign kai idleWorld) =
       [\<lparr>url = str ''/admin/login'',
         body = [(''email'', JString (str ''kai@doe.com'')),
                 (''password'', JString (str ''secret'')),
                 (''rememberMe'', JBool True)]\<rparr>]"
proof -
  have idle: "inflight idleWorld = []"
    by (simp add: idleWorld_def)
  have vals: "email kai = str ''kai@doe.com''" "password kai = str ''secret''" "rememberMe kai"
    by (simp_all add: kai_def)
  from request_body_is_values [OF LOGIN_SCHEMA_kai, of idleWorld] LOGIN_SCHEMA_kai idle vals
  show ?thesis by simp
qed

section \<open>Session establishment and redirect\<close>

lemma dispatch_fields:
  "refuses (dispatch a w) = refuses w"
  "storage (dispatch a w) = storage w"
  "history (dispatch a w) = history w"
  "dispatched (dispatch a w) = dispatched w @ [a]"
  by (simp_all add: dispatch_def)

lemma setToken_eq:
  "setToken t b w =
     (if refuses w (tierOf b) TokenKey then Inl StorageFailure
      else Inr (w\<lparr>storage := (storage w)(tierOf b :=
                  (storage w (tierOf b))(TokenKey \<mapsto> StoredToken t))\<rparr>))"
  by (simp add: setToken_def auth_set_def Let_def)

lemma setUserInfo_eq:
  "setUserInfo u b w =
     (if refuses w (tierOf b) UserInfoKey then Inl StorageFailure
      else Inr (w\<lparr>storage := (storage w)(tierOf b :=
                  (storage w (tierOf b))(UserInfoKey \<mapsto> StoredUser u))\<rparr>))"
  by (simp add: setUserInfo_def auth_set_def Let_def)

lemma applyPreferedLanguage_fields:
  "refuses (applyPreferedLanguage u w) = refuses w"
  "storage (applyPreferedLanguage u w) = storage w"
  "history (applyPreferedLanguage u w) = history w"
  by (simp_all add: applyPreferedLanguage_def dispatch_fields split: option.splits)

lemma applyPreferedLanguage_dispatched:
  "dispatched (applyPreferedLanguage u w) =
     (case preferedLanguage u of
        None \<Rightarrow> dispatched w
      | Some l \<Rightarrow> if l \<noteq> [] then dispatched w @ [SetLocale l] else dispatched w)"
  by (simp add: applyPreferedLanguage_def dispatch_fields split: option.splits)

lemma onSuccess_unfold:
  "onSuccess q (Some d) w =
     (if refuses w (tierOf (dataRememberMe d)) TokenKey
      then (Threw StorageFailure, applyPreferedLanguage (user d) w)
      else if refuses w (tierOf (dataRememberMe d)) UserInfoKey
      then (Threw StorageFailure,
            (applyPreferedLanguage (user d) w)\<lparr>storage := (storage w)(tierOf (dataRememberMe d) :=
               (storage w (tierOf (dataRememberMe d)))(TokenKey \<mapsto> StoredToken (token d)))\<rparr>)
      else (case redirectUrl (q (str ''redirectTo'')) of
              Inl e \<Rightarrow>
                (Threw e,
                 (applyPreferedLanguage (user d) w)\<lparr>storage := (storage w)(tierOf (dataRememberMe d) :=
                    (storage w (tierOf (dataRememberMe d)))
                      (TokenKey \<mapsto> StoredToken (token d),
                       UserInfoKey \<mapsto> StoredUser (user d)))\<rparr>)
            | Inr p \<Rightarrow>
                (Returned,
                 push p ((applyPreferedLanguage (user d) w)\<lparr>storage := (storage w)(tierOf (dataRememberMe d) :=
                    (storage w (tierOf (dataRememberMe d)))
                      (TokenKey \<mapsto> StoredToken (token d),
                       UserInfoKey \<mapsto> StoredUser (user d)))\<rparr>))))"
  by (simp add: onSuccess_def Let_def setToken_eq setUserInfo_eq applyPreferedLanguage_fields
        split: sum.splits)

lemma onSuccess_dispatched:
  "dispatched (snd (onSuccess q (Some d) w)) = dispatched (applyPreferedLanguage (user d) w)"
  by (simp add: onSuccess_unfold push_def split: sum.splits)

lemma onSuccess_token_refused:
  assumes "refuses w (tierOf (dataRememberMe d)) TokenKey"
  shows "fst (onSuccess q (Some d) w) = Threw StorageFailure"
    and "storage (snd (onSuccess q (Some d) w)) = storage w"
    and "history (snd (onSuccess q (Some d) w)) = history w"
  using assms by (simp_all add: onSuccess_unfold applyPreferedLanguage_fields)

lemma onSuccess_user_refused:
  assumes "\<not> refuses w (tierOf (dataRememberMe d)) TokenKey"
    and "refuses w (tierOf (dataRememberMe d)) UserInfoKey"
  shows "fst (onSuccess q (Some d) w) = Threw StorageFailure"
    and "storage (snd (onSuccess q (Some d) w)) =
           (storage w)(tierOf (dataRememberMe d) :=
              (storage w (tierOf (dataRememberMe d)))(TokenKey \<mapsto> StoredToken (token d)))"
    and "history (snd (onSuccess q (Some d) w)) = history w"
  using assms by (simp_all add: onSuccess_unfold applyPreferedLanguage_fields)

lemma onSuccess_accepted:
  assumes "\<not> refuses w (tierOf (dataRememberMe d)) TokenKey"
    and "\<not> refuses w (tierOf (dataRememberMe d)) UserInfoKey"
  shows "storage (snd (onSuccess q (Some d) w)) =
           (storage w)(tierOf (dataRememberMe d) :=
              (storage w (tierOf (dataRememberMe d)))
                (TokenKey \<mapsto> StoredToken (token d), UserInfoKey \<mapsto> StoredUser (user d)))"
    and "fst (onSuccess q (Some d) w) =
           (case redirectUrl (q (str ''redirectTo'')) of Inl e \<Rightarrow> Threw e | Inr p \<Rightarrow> Returned)"
    and "history (snd (onSuccess q (Some d) w)) =
           (case redirectUrl (q (str ''redirectTo'')) of
              Inl e \<Rightarrow> history w
            | Inr p \<Rightarrow> history w @ [p])"
  using assms
  by (simp_all add: onSuccess_unfold applyPreferedLanguage_fields push_def split: sum.splits)


lemma idleWorld_fields:
  "refuses idleWorld tier key = False"
  "storage idleWorld tier key = None"
  "history idleWorld = []"
  "dispatched idleWorld = []"
  by (simp_all add: idleWorld_def)

lemma kai_data:
  "dataRememberMe (mutationResult kai r) = True"
  "token (mutationResult kai (kaiResponse lang)) = str ''jwt''"
  "user (mutationResult kai (kaiResponse lang)) = \<lparr>userId = 1, preferedLanguage = lang\<rparr>"
  by (simp_all add: mutationResult_def kai_def kaiResponse_def)


lemma decode_percent: "decodeURIComponent (str ''%'') = Inl URIError"
  by code_simp

lemma refusingWorld_fields:
  "refuses refusingWorld tier key = True"
  "storage refusingWorld tier key = None"
  "history refusingWorld = []"
  by (simp_all add: refusingWorld_def idleWorld_def)

text \<open>
  C4, as stated, fails twice. A user whose \<open>preferedLanguage\<close> is present but is the
  empty string gets no locale-change action. And when the storage refuses the writes, a
  successful response with \<open>rememberMe\<close> set leaves neither the token nor the user in
  long-lived storage.
\<close>

theorem empty_language_counterexample:
  "preferedLanguage (user (kaiResponse (Some []))) = Some []
   \<and> dispatched (snd (onSuccess emptyQuery (Some (mutationResult kai (kaiResponse (Some []))))
        idleWorld)) = []
   \<and> rememberMe kai
   \<and> storage (snd (onSuccess emptyQuery
        (Some (mutationResult kai (kaiResponse (Some (str ''fr''))))) refusingWorld))
        LongLived TokenKey = None
   \<and> storage (snd (onSuccess emptyQuery
        (Some (mutationResult kai (kaiResponse (Some (str ''fr''))))) refusingWorld))
        LongLived UserInfoKey = None"
proof -
  have empty: "preferedLanguage (user (kaiResponse (Some []))) = Some []"
    by (simp add: kaiResponse_def)
  have silent: "dispatched (snd (onSuccess emptyQuery
      (Some (mutationResult kai (kaiResponse (Some [])))) idleWorld)) = []"
    by (simp add: onSuccess_dispatched applyPreferedLanguage_dispatched kai_data
          idleWorld_fields)
  have flag: "rememberMe kai"
    by (simp add: kai_def)
  have refused: "refuses refusingWorld
      (tierOf (dataRememberMe (mutationResult kai (kaiResponse (Some (str ''fr'')))))) TokenKey"
    by (simp add: refusingWorld_fields)
  have unchanged: "storage (snd (onSuccess emptyQuery
      (Some (mutationResult kai (kaiResponse (Some (str ''fr''))))) refusingWorld))
      = storage refusingWorld"
    by (rule onSuccess_token_refused(2) [OF refused])
  from empty silent flag unchanged show ?thesis
    by (simp add: refusingWorld_fields)
qed

text \<open>
  C4, amended. For a successful response and the \<open>rememberMe\<close> flag that was submitted:
  if \<open>user.preferedLanguage\<close> is present and not empty, \<open>setLocale\<close> of that language
  is dispatched, and an empty string dispatches nothing; and when the storage accepts both
  writes, the token and the user are stored in the tier the flag selects (true:
  long-lived, false: session-scoped), the other tier being left as it was.
\<close>

theorem onSuccess_locale_and_persistence:
  "(\<forall>l. preferedLanguage (user r) = Some l \<and> l \<noteq> [] \<longrightarrow>
       dispatched (snd (onSuccess q (Some (mutationResult v r)) w))
         = dispatched w @ [SetLocale l])
   \<and> (preferedLanguage (user r) = Some [] \<longrightarrow>
       dispatched (snd (onSuccess q (Some (mutationResult v r)) w)) = dispatched w)
   \<and> (\<not> refuses w (tierOf (rememberMe v)) TokenKey
      \<and> \<not> refuses w (tierOf (rememberMe v)) UserInfoKey \<longrightarrow>
        storage (snd (onSuccess q (Some (mutationResult v r)) w)) (tierOf (rememberMe v))
            TokenKey = Some (StoredToken (token r))
        \<and> storage (snd (onSuccess q (Some (mutationResult v r)) w)) (tierOf (rememberMe v))
            UserInfoKey = Some (StoredUser (user r))
        \<and> storage (snd (onSuccess q (Some (mutationResult v r)) w)) (tierOf (\<not> rememberMe v))
            = storage w (tierOf (\<not> rememberMe v)))
   \<and> tierOf True = LongLived \<and> tierOf False = SessionScoped"
proof -
  have d: "dataRememberMe (mutationResult v r) = rememberMe v"
    "token (mutationResult v r) = token r" "user (mutationResult v r) = user r"
    by (simp_all add: mutationResult_def)
  have other: "tierOf (\<not> rememberMe v) \<noteq> tierOf (rememberMe v)"
    by (simp add: tierOf_def)
  have effect: "\<forall>l. preferedLanguage (user r) = Some l \<and> l \<noteq> [] \<longrightarrow>
       dispatched (snd (onSuccess q (Some (mutationResult v r)) w))
         = dispatched w @ [SetLocale l]"
    by (simp add: onSuccess_dispatched applyPreferedLanguage_dispatched d)
  have silent: "preferedLanguage (user r) = Some [] \<longrightarrow>
       dispatched (snd (onSuccess q (Some (mutationResult v r)) w)) = dispatched w"
    by (simp add: onSuccess_dispatched applyPreferedLanguage_dispatched d)
  have persisted:
    "storage (snd (onSuccess q (Some (mutationResult v r)) w)) (tierOf (rememberMe v))
         TokenKey = Some (StoredToken (token r))
     \<and> storage (snd (onSuccess q (Some (mutationResult v r)) w)) (tierOf (rememberMe v))
         UserInfoKey = Some (StoredUser (user r))
     \<and> storage (snd (onSuccess q (Some (mutationResult v r)) w)) (tierOf (\<not> rememberMe v))
         = storage w (tierOf (\<not> rememberMe v))"
    if "\<not> refuses w (tierOf (rememberMe v)) TokenKey"
      and "\<not> refuses w (tierOf (rememberMe v)) UserInfoKey"
  proof -
    from that have acc: "\<not> refuses w (tierOf (dataRememberMe (mutationResult v r))) TokenKey"
      "\<not> refuses w (tierOf (dataRememberMe (mutationResult v r))) UserInfoKey"
      by (simp_all add: d)
    show ?thesis
      using other by (simp add: onSuccess_accepted(1) [OF acc] d)
  qed
  have tiers: "tierOf True = LongLived \<and> tierOf False = SessionScoped"
    by (simp add: tierOf_def)
  from effect silent persisted tiers show ?thesis by blast
qed

theorem onSuccess_locale_and_persistence_witness:
  "\<not> refuses idleWorld (tierOf (rememberMe kai)) TokenKey
   \<and> \<not> refuses idleWorld (tierOf (rememberMe kai)) UserInfoKey
   \<and> preferedLanguage (user (kaiResponse (Some (str ''fr'')))) = Some (str ''fr'')
   \<and> str ''fr'' \<noteq> []
   \<and> dispatched (snd (onSuccess emptyQuery
        (Some (mutationResult kai (kaiResponse (Some (str ''fr''))))) idleWorld))
       = [SetLocale (str ''fr'')]
   \<and> storage (snd (onSuccess emptyQuery
        (Some (mutationResult kai (kaiResponse (Some (str ''fr''))))) idleWorld))
        LongLived TokenKey = Some (StoredToken (str ''jwt''))
   \<and> storage (snd (onSuccess emptyQuery
        (Some (mutationResult kai (kaiResponse (Some (str ''fr''))))) idleWorld))
        LongLived UserInfoKey = Some (StoredUser (user (kaiResponse (Some (str ''fr'')))))
   \<and> preferedLanguage (user (kaiResponse (Some []))) = Some []
   \<and> dispatched (snd (onSuccess emptyQuery
        (Some (mutationResult kai (kaiResponse (Some [])))) idleWorld)) = []"
proof -
  have acc: "\<not> refuses idleWorld (tierOf (rememberMe kai)) TokenKey"
    "\<not> refuses idleWorld (tierOf (rememberMe kai)) UserInfoKey"
    by (simp_all add: idleWorld_fields)
  have lang: "preferedLanguage (user (kaiResponse l)) = l"
    "token (kaiResponse l) = str ''jwt''" for l
    by (simp_all add: kaiResponse_def)
  have ne: "str ''fr'' \<noteq> []"
    by (simp add: str_def)
  have tier: "tierOf (rememberMe kai) = LongLived"
    by (simp add: tierOf_def kai_def)
  from onSuccess_locale_and_persistence
         [of "kaiResponse (Some (str ''fr''))" emptyQuery kai idleWorld]
       onSuccess_locale_and_persistence
         [of "kaiResponse (Some [])" emptyQuery kai idleWorld]
       acc lang ne tier
  show ?thesis by (simp add: idleWorld_fields)
qed

text \<open>
  C10. When \<open>user.preferedLanguage\<close> is the empty string, \<open>onSuccess\<close> dispatches
  nothing, exactly as when the language is absent.
\<close>

theorem empty_language_no_locale:
  "(preferedLanguage (user d) = Some [] \<longrightarrow>
      dispatched (snd (onSuccess q (Some d) w)) = dispatched w)
   \<and> (preferedLanguage (user d) = None \<longrightarrow>
      dispatched (snd (onSuccess q (Some d) w)) = dispatched w)"
  by (simp add: onSuccess_dispatched applyPreferedLanguage_dispatched)

theorem empty_language_no_locale_witness:
  "preferedLanguage (user (mutationResult kai (kaiResponse (Some [])))) = Some []
   \<and> dispatched (snd (onSuccess emptyQuery (Some (mutationResult kai (kaiResponse (Some []))))
        idleWorld)) = []
   \<and> preferedLanguage (user (mutationResult kai (kaiResponse None))) = None
   \<and> dispatched (snd (onSuccess emptyQuery (Some (mutationResult kai (kaiResponse None)))
        idleWorld)) = []"
proof -
  have l: "preferedLanguage (user (mutationResult kai (kaiResponse lang))) = lang" for lang
    by (simp add: kai_data)
  from empty_language_no_locale
         [of "mutationResult kai (kaiResponse (Some []))" emptyQuery idleWorld]
       empty_language_no_locale
         [of "mutationResult kai (kaiResponse None)" emptyQuery idleWorld]
       l idleWorld_fields(4)
  show ?thesis by simp
qed









text \<open>
  C9. \<open>decodeURIComponent\<close> throws on the malformed escape \<open>%\<close>. With that value as
  \<open>redirectTo\<close>, \<open>onSuccess\<close> ends with the URIError instead of falling back to the
  root path, and nothing is pushed.
\<close>

theorem malformed_redirect_throws:
  assumes "\<not> refuses w (tierOf (dataRememberMe d)) TokenKey"
    and "\<not> refuses w (tierOf (dataRememberMe d)) UserInfoKey"
    and "q (str ''redirectTo'') = Some (str ''%'')"
  shows "decodeURIComponent (str ''%'') = Inl URIError
     \<and> redirectUrl (q (str ''redirectTo'')) = Inl URIError
     \<and> fst (onSuccess q (Some d) w) = Threw URIError
     \<and> history (snd (onSuccess q (Some d) w)) = history w"
proof -
  have ne: "str ''%'' \<noteq> []"
    by (simp add: str_def)
  with assms(3) have r: "redirectUrl (q (str ''redirectTo'')) = Inl URIError"
    by (simp add: redirectUrl_def decode_percent)
  then show ?thesis
    by (simp add: onSuccess_accepted(2,3) [OF assms(1,2)] decode_percent)
qed

theorem malformed_redirect_throws_witness:
  "\<not> refuses idleWorld (tierOf (dataRememberMe (mutationResult kai (kaiResponse None)))) TokenKey
   \<and> \<not> refuses idleWorld (tierOf (dataRememberMe (mutationResult kai (kaiResponse None))))
         UserInfoKey
   \<and> queryWith ''%'' (str ''redirectTo'') = Some (str ''%'')
   \<and> fst (onSuccess (queryWith ''%'') (Some (mutationResult kai (kaiResponse None))) idleWorld)
       = Threw URIError
   \<and> history (snd (onSuccess (queryWith ''%'')
        (Some (mutationResult kai (kaiResponse None))) idleWorld)) = []"
proof -
  have acc:
    "\<not> refuses idleWorld (tierOf (dataRememberMe (mutationResult kai (kaiResponse None)))) TokenKey"
    "\<not> refuses idleWorld (tierOf (dataRememberMe (mutationResult kai (kaiResponse None))))
        UserInfoKey"
    by (simp_all add: idleWorld_fields)
  have q: "queryWith ''%'' (str ''redirectTo'') = Some (str ''%'')"
    by (simp add: queryWith_def)
  from malformed_redirect_throws [where q = "queryWith ''%''", OF acc q]
       acc q idleWorld_fields(3)
  show ?thesis by simp
qed

text \<open>
  C7, as stated, fails: when the storage accepts the token and refuses the user record,
  the handler ends with the token stored and no user record next to it.
\<close>

theorem token_without_user_counterexample:
  "fst (onSuccess emptyQuery (Some (mutationResult kai (kaiResponse None))) userRefusingWorld)
     = Threw StorageFailure
   \<and> storage (snd (onSuccess emptyQuery (Some (mutationResult kai (kaiResponse None)))
        userRefusingWorld)) LongLived TokenKey = Some (StoredToken (str ''jwt''))
   \<and> storage (snd (onSuccess emptyQuery (Some (mutationResult kai (kaiResponse None)))
        userRefusingWorld)) LongLived UserInfoKey = None
   \<and> storage (snd (onSuccess emptyQuery (Some (mutationResult kai (kaiResponse None)))
        userRefusingWorld)) SessionScoped UserInfoKey = None"
proof -
  have r: "\<not> refuses userRefusingWorld
             (tierOf (dataRememberMe (mutationResult kai (kaiResponse None)))) TokenKey"
    "refuses userRefusingWorld
       (tierOf (dataRememberMe (mutationResult kai (kaiResponse None)))) UserInfoKey"
    by (simp_all add: userRefusingWorld_def)
  have s: "storage userRefusingWorld tier key = None" for tier key
    by (simp add: userRefusingWorld_def idleWorld_def)
  show ?thesis
    by (simp add: onSuccess_user_refused [OF r] kai_data s tierOf_def)
qed

text \<open>
  C7, amended. The two writes are made one after the other and nothing is undone: when
  both are accepted, the token and the user are stored in the same tier; when the token
  write is refused, the handler throws and the storage is unchanged; when only the user
  write is refused, the handler throws, the token stays stored and the user entry is what
  it was before.
\<close>

theorem persistence_without_rollback:
  "(\<not> refuses w (tierOf (dataRememberMe d)) TokenKey
      \<and> \<not> refuses w (tierOf (dataRememberMe d)) UserInfoKey \<longrightarrow>
        storage (snd (onSuccess q (Some d) w)) (tierOf (dataRememberMe d)) TokenKey
          = Some (StoredToken (token d))
        \<and> storage (snd (onSuccess q (Some d) w)) (tierOf (dataRememberMe d)) UserInfoKey
          = Some (StoredUser (user d)))
   \<and> (refuses w (tierOf (dataRememberMe d)) TokenKey \<longrightarrow>
        fst (onSuccess q (Some d) w) = Threw StorageFailure
        \<and> storage (snd (onSuccess q (Some d) w)) = storage w)
   \<and> (\<not> refuses w (tierOf (dataRememberMe d)) TokenKey
      \<and> refuses w (tierOf (dataRememberMe d)) UserInfoKey \<longrightarrow>
        fst (onSuccess q (Some d) w) = Threw StorageFailure
        \<and> storage (snd (onSuccess q (Some d) w)) (tierOf (dataRememberMe d)) TokenKey
          = Some (StoredToken (token d))
        \<and> storage (snd (onSuccess q (Some d) w)) (tierOf (dataRememberMe d)) UserInfoKey
          = storage w (tierOf (dataRememberMe d)) UserInfoKey)"
  by (simp add: onSuccess_accepted(1) onSuccess_token_refused(1,2) onSuccess_user_refused(1,2))


theorem persistence_without_rollback_witness:
  "\<not> refuses idleWorld (tierOf (dataRememberMe (mutationResult kai (kaiResponse None)))) TokenKey
   \<and> \<not> refuses idleWorld (tierOf (dataRememberMe (mutationResult kai (kaiResponse None))))
         UserInfoKey
   \<and> storage (snd (onSuccess emptyQuery (Some (mutationResult kai (kaiResponse None)))
        idleWorld)) LongLived TokenKey = Some (StoredToken (str ''jwt''))
   \<and> storage (snd (onSuccess emptyQuery (Some (mutationResult kai (kaiResponse None)))
        idleWorld)) LongLived UserInfoKey
       = Some (StoredUser \<lparr>userId = 1, preferedLanguage = None\<rparr>)
   \<and> refuses refusingWorld (tierOf (dataRememberMe (mutationResult kai (kaiResponse None))))
        TokenKey
   \<and> storage (snd (onSuccess emptyQuery (Some (mutationResult kai (kaiResponse None)))
        refusingWorld)) = storage refusingWorld
   \<and> \<not> refuses userRefusingWorld
          (tierOf (dataRememberMe (mutationResult kai (kaiResponse None)))) TokenKey
   \<and> refuses userRefusingWorld
        (tierOf (dataRememberMe (mutationResult kai (kaiResponse None)))) UserInfoKey
   \<and> storage (snd (onSuccess emptyQuery (Some (mutationResult kai (kaiResponse None)))
        userRefusingWorld)) LongLived TokenKey = Some (StoredToken (str ''jwt''))
   \<and> storage (snd (onSuccess emptyQuery (Some (mutationResult kai (kaiResponse None)))
        userRefusingWorld)) LongLived UserInfoKey = None"
proof -
  have r: "refuses idleWorld tier key = False" "refuses refusingWorld tier key = True"
    "refuses userRefusingWorld tier key = (key = UserInfoKey)" for tier key
    by (simp_all add: idleWorld_def refusingWorld_def userRefusingWorld_def)
  have s: "storage userRefusingWorld tier key = None" for tier key
    by (simp add: userRefusingWorld_def idleWorld_def)
  have t: "tierOf True = LongLived"
    by (simp add: tierOf_def)
  from persistence_without_rollback
         [of idleWorld "mutationResult kai (kaiResponse None)" emptyQuery]
       persistence_without_rollback
         [of refusingWorld "mutationResult kai (kaiResponse None)" emptyQuery]
       persistence_without_rollback
         [of userRefusingWorld "mutationResult kai (kaiResponse None)" emptyQuery]
  show ?thesis by (simp add: r s t kai_data)
qed

end
